theory Spec2Isabelle
  imports Main "HOL-Library.Word" "HOL-Library.Sublist" "HOL-Library.Multiset"
begin

unbundle bit_operations_syntax

section \<open>Go values\<close>

text \<open>
  A Go \<open>string\<close> and a \<open>[]byte\<close> are sequences of bytes: \<open>string\<close> here, one
  \<open>char\<close> per byte. \<open>int64\<close> is \<open>64 word\<close>; Go's \<open>int\<close> is taken at its 64-bit
  width where the code does arithmetic on it (\<open>UpdateID + 1\<close>, the sleep duration), and as an
  unbounded \<open>int\<close> where it is only compared (\<open>Offset\<close> and \<open>Length\<close> of an entity).
  A Go \<open>error\<close> is a value: \<open>errors.New\<close> makes one from a text, \<open>fmt.Errorf\<close> with
  a format that ends in \<open>%w\<close> wraps an error under that format.
\<close>

type_synonym bytes = string

datatype error = ErrorNew string | Errorf string error

datatype panic = SliceBoundsOutOfRange

section \<open>telegrambotTools.go: callback data and commands\<close>

subsection \<open>The functions of package strings that the tools call\<close>

text \<open>
  \<open>strings.Index(s, substr)\<close> is the index of the first instance of \<open>substr\<close> in \<open>s\<close>, or
  \<open>-1\<close>. \<open>strings.SplitN(s, sep, n)\<close> for a non-empty \<open>sep\<close> and \<open>n \<ge> 0\<close> cuts \<open>s\<close> at the
  first \<open>n - 1\<close> instances of \<open>sep\<close>. A slice expression \<open>s[lo:hi]\<close> panics unless
  \<open>0 \<le> lo \<le> hi \<le> len(s)\<close>.
\<close>

fun Index :: "string \<Rightarrow> string \<Rightarrow> int" where
  "Index [] substr = (if substr = [] then 0 else - 1)"
| "Index (c # cs) substr =
     (if prefix substr (c # cs) then 0
      else (let i = Index cs substr in if i = - 1 then - 1 else i + 1))"

fun SplitN :: "string \<Rightarrow> string \<Rightarrow> nat \<Rightarrow> string list" where
  "SplitN s sep 0 = []"
| "SplitN s sep (Suc 0) = [s]"
| "SplitN s sep (Suc (Suc n)) =
     (let m = Index s sep in
      if m < 0 then [s]
      else take (nat m) s # SplitN (drop (nat m + length sep) s) sep (Suc n))"

definition slice_expr :: "string \<Rightarrow> int \<Rightarrow> int \<Rightarrow> panic + string" where
  "slice_expr s lo hi =
     (if 0 \<le> lo \<and> lo \<le> hi \<and> hi \<le> int (length s)
      then Inr (take (nat (hi - lo)) (drop (nat lo) s))
      else Inl SliceBoundsOutOfRange)"

definition slice_from :: "string \<Rightarrow> int \<Rightarrow> panic + string" where
  "slice_from s lo = slice_expr s lo (int (length s))"

definition slice_to :: "string \<Rightarrow> int \<Rightarrow> panic + string" where
  "slice_to s hi = slice_expr s 0 hi"

subsection \<open>CompileCbQryData and DecompileCbQryData\<close>

definition CompileCbQryData :: "string \<Rightarrow> string \<Rightarrow> string" where
  "CompileCbQryData command args =
     (if args = [] then command else command @ [CHR 0x00] @ args)"

text \<open>
  \<open>data[0]\<close> exists because \<open>SplitN\<close> with \<open>n = 2\<close> returns one or two strings; the
  model keeps the empty case apart so that the index is never read out of range.
\<close>

definition DecompileCbQryData :: "string \<Rightarrow> string \<times> string" where
  "DecompileCbQryData cbQryData =
     (let data = SplitN cbQryData [CHR 0x00] 2 in
      case data of
        [] \<Rightarrow> ([], [])
      | command # rest \<Rightarrow>
          (command, if length data = 2 then data ! 1 else []))"

subsection \<open>ParseMessageCommand\<close>

type_synonym MessageEntityType = string

definition MessageEntityTypeBotCommand :: MessageEntityType where
  "MessageEntityTypeBotCommand = ''bot_command''"

text \<open>
  Of \<open>MessageEntity\<close> and \<open>Message\<close> only the fields that \<open>ParseMessageCommand\<close> reads are
  kept; the entities of a message are the structs themselves (the source holds pointers to
  them).
\<close>

record MessageEntity =
  Type :: MessageEntityType
  Offset :: int
  Length :: int

record Message =
  Text :: string
  Entities :: "MessageEntity list"
  Caption :: string
  CaptionEntities :: "MessageEntity list"

text \<open>
  The loop over \<open>textEntities\<close>: an entity that is not a bot command at offset 0 is skipped
  (\<open>continue\<close>); the first one that is decides the result (\<open>break\<close>). \<open>strings.TrimSpace\<close> is
  the parameter \<open>TrimSpace\<close>. The result starts as the pair of empty strings.
\<close>

fun ParseMessageCommand_loop ::
  "(string \<Rightarrow> string) \<Rightarrow> string \<Rightarrow> MessageEntity list \<Rightarrow> panic + (string \<times> string)" where
  "ParseMessageCommand_loop TrimSpace text [] = Inr ([], [])"
| "ParseMessageCommand_loop TrimSpace text (entity # rest) =
     (if Type entity \<noteq> MessageEntityTypeBotCommand \<or> Offset entity \<noteq> 0
      then ParseMessageCommand_loop TrimSpace text rest
      else
        (case slice_expr text 1 (Length entity) of
           Inl p \<Rightarrow> Inl p
         | Inr command \<Rightarrow>
             (let usernameIndex = Index command ''@'' in
              case (if usernameIndex \<noteq> - 1 then slice_to command usernameIndex
                    else Inr command) of
                Inl p \<Rightarrow> Inl p
              | Inr command' \<Rightarrow>
                  (case slice_from text (Length entity) of
                     Inl p \<Rightarrow> Inl p
                   | Inr tail \<Rightarrow> Inr (command', TrimSpace tail)))))"

definition ParseMessageCommand ::
  "(string \<Rightarrow> string) \<Rightarrow> Message \<Rightarrow> panic + (string \<times> string)" where
  "ParseMessageCommand TrimSpace msg =
     (if Text msg \<noteq> [] then ParseMessageCommand_loop TrimSpace (Text msg) (Entities msg)
      else if Caption msg \<noteq> []
        then ParseMessageCommand_loop TrimSpace (Caption msg) (CaptionEntities msg)
      else Inr ([], []))"

section \<open>File references\<close>

text \<open>
  \<open>InputFile\<close> is an interface with three implementations: \<open>FileID\<close> and \<open>FileURL\<close>
  (strings) and \<open>*FileReader\<close>, a pointer to a struct that holds the name of the file, an
  \<open>io.Reader\<close> and the memoized \<open>fieldname\<close>. A pointer is an address in a heap of
  \<open>FileReader\<close> structs, so that the two places that hold the same reference (the parameter
  object that is marshalled and the list of input files) see the same \<open>fieldname\<close>. A nil
  interface value is \<open>None\<close>.

  An \<open>io.Reader\<close> is \<open>nil\<close> (\<open>None\<close>) or a stream: the bytes it still delivers, followed by
  the end of the stream or by a read error.
\<close>

datatype reader = Stream bytes "error option"

record FileReader =
  Name :: string
  Reader :: "reader option"
  fieldname :: string

datatype InputFile = FileID string | FileURL string | FileReaderPtr nat

text \<open>
  \<open>math/rand\<close>'s global source is the stream of bytes it will deliver; \<open>rand.Read(b)\<close> takes
  the first \<open>len(b)\<close> of them. \<open>hex.EncodeToString\<close> writes two lower-case digits per byte.
\<close>

record fstate =
  heap :: "nat \<Rightarrow> FileReader"
  rand :: "nat \<Rightarrow> 8 word"

definition rand_Read :: "nat \<Rightarrow> (nat \<Rightarrow> 8 word) \<Rightarrow> 8 word list \<times> (nat \<Rightarrow> 8 word)" where
  "rand_Read n src = (map src [0..<n], \<lambda>i. src (i + n))"

definition hextable :: string where
  "hextable = ''0123456789abcdef''"

definition EncodeToString :: "8 word list \<Rightarrow> string" where
  "EncodeToString src =
     concat (map (\<lambda>v. [hextable ! unat (drop_bit 4 v), hextable ! unat (v AND 0x0f)]) src)"

definition checkFieldname :: "nat \<Rightarrow> fstate \<Rightarrow> fstate" where
  "checkFieldname fr st =
     (if fieldname (heap st fr) \<noteq> [] then st
      else
        (case rand_Read 6 (rand st) of
           (b, src) \<Rightarrow>
             st\<lparr>heap := (heap st)(fr := (heap st fr)\<lparr>fieldname := EncodeToString b\<rparr>),
                rand := src\<rparr>))"

fun multipartFormFile ::
  "InputFile \<Rightarrow> fstate \<Rightarrow> (string \<times> string \<times> reader option) \<times> fstate" where
  "multipartFormFile (FileID _) st = (([], [], None), st)"
| "multipartFormFile (FileURL _) st = (([], [], None), st)"
| "multipartFormFile (FileReaderPtr fr) st =
     (let st' = checkFieldname fr st in
      ((fieldname (heap st' fr), Name (heap st' fr), Reader (heap st' fr)), st'))"


section \<open>telegrambot.go: the call dispatcher\<close>

subsection \<open>filterInputFilesNeedingUpload\<close>

text \<open>
  The slice of input files is \<open>nil\<close> (\<open>None\<close>) or a list of interface values. The loop
  appends to \<open>filteredInputFiles\<close> every non-nil entry whose \<open>multipartFormFile\<close> returns a
  non-nil reader.
\<close>

fun filterInputFilesNeedingUpload_loop ::
  "InputFile option list \<Rightarrow> InputFile list \<Rightarrow> fstate \<Rightarrow> InputFile list \<times> fstate" where
  "filterInputFilesNeedingUpload_loop [] filteredInputFiles st = (filteredInputFiles, st)"
| "filterInputFilesNeedingUpload_loop (None # rest) filteredInputFiles st =
     filterInputFilesNeedingUpload_loop rest filteredInputFiles st"
| "filterInputFilesNeedingUpload_loop (Some inputFile # rest) filteredInputFiles st =
     (case multipartFormFile inputFile st of
        ((_, _, reader), st') \<Rightarrow>
          if reader \<noteq> None
          then filterInputFilesNeedingUpload_loop rest (filteredInputFiles @ [inputFile]) st'
          else filterInputFilesNeedingUpload_loop rest filteredInputFiles st')"

definition filterInputFilesNeedingUpload ::
  "InputFile option list option \<Rightarrow> fstate \<Rightarrow> InputFile list option \<times> fstate" where
  "filterInputFilesNeedingUpload inputFiles st =
     (case inputFiles of
        None \<Rightarrow> (None, st)
      | Some fs \<Rightarrow>
          (case filterInputFilesNeedingUpload_loop fs [] st of
             (filteredInputFiles, st') \<Rightarrow> (Some filteredInputFiles, st')))"

definition len :: "'a list option \<Rightarrow> nat" where
  "len xs = (case xs of None \<Rightarrow> 0 | Some ys \<Rightarrow> length ys)"

subsection \<open>The multipart writer\<close>

text \<open>
  \<open>multipart.NewWriter\<close> writes into a \<open>bytes.Buffer\<close>. The buffer is kept as the list of
  the parts written so far rather than as their bytes. A write into a \<open>bytes.Buffer\<close> returns
  no error, so \<open>WriteField\<close>, \<open>CreateFormFile\<close> and \<open>Close\<close> return \<open>None\<close>; \<open>io.Copy\<close>
  into the part that \<open>CreateFormFile\<close> opened (the last one) fails when the reader does. The
  boundary is drawn at random by \<open>NewWriter\<close>.
\<close>

datatype part = FormField string string | FormFile string string bytes

record Writer =
  boundary :: string
  parts :: "part list"

definition NewWriter :: "string \<Rightarrow> Writer" where
  "NewWriter b = \<lparr>boundary = b, parts = []\<rparr>"

definition WriteField :: "string \<Rightarrow> string \<Rightarrow> Writer \<Rightarrow> error option \<times> Writer" where
  "WriteField fname v mw = (None, mw\<lparr>parts := parts mw @ [FormField fname v]\<rparr>)"

definition CreateFormFile :: "string \<Rightarrow> string \<Rightarrow> Writer \<Rightarrow> error option \<times> Writer" where
  "CreateFormFile fname filename mw =
     (None, mw\<lparr>parts := parts mw @ [FormFile fname filename []]\<rparr>)"

fun append_part :: "bytes \<Rightarrow> part \<Rightarrow> part" where
  "append_part bs (FormFile fname filename content) = FormFile fname filename (content @ bs)"
| "append_part bs (FormField fname v) = FormField fname (v @ bs)"

fun write_last :: "bytes \<Rightarrow> part list \<Rightarrow> part list" where
  "write_last bs [] = []"
| "write_last bs [p] = [append_part bs p]"
| "write_last bs (p # q # ps) = p # write_last bs (q # ps)"

definition Copy :: "reader \<Rightarrow> Writer \<Rightarrow> (error option \<times> reader) \<times> Writer" where
  "Copy src mw =
     (case src of
        Stream bs e \<Rightarrow> ((e, Stream [] e), mw\<lparr>parts := write_last bs (parts mw)\<rparr>))"

definition Close :: "Writer \<Rightarrow> error option \<times> Writer" where
  "Close mw = (None, mw)"

definition FormDataContentType :: "Writer \<Rightarrow> string" where
  "FormDataContentType mw = ''multipart/form-data; boundary='' @ boundary mw"

subsection \<open>Requests, responses and the world of a call\<close>

text \<open>
  The body of a request is the JSON text or what the multipart writer has written. An
  \<open>API\<close> holds the token, the endpoint and the pluggable \<open>HttpDoRequest\<close>, a function with
  effects of its own: it takes and returns a transport state \<open>'ts\<close>.
\<close>

datatype body = JSONBody bytes | MultipartBody Writer

type_synonym 'ts HttpDoRequest =
  "string \<Rightarrow> string \<Rightarrow> (string \<times> string) list \<Rightarrow> body \<Rightarrow> 'ts \<Rightarrow> (error + bytes) \<times> 'ts"

record 'ts API =
  Token :: string
  EndpointURL :: string
  HttpDoRequest :: "'ts HttpDoRequest"

type_synonym ChatID = "64 word"

record ResponseParameters =
  MigrateToChatID :: ChatID
  RetryAfter :: "64 word"

text \<open>
  The \<open>Result\<close> field of \<open>Response\<close> points to the caller's destination \<open>resultDest\<close>;
  decoding writes through it, so the destination is threaded beside the response.
\<close>

record Response =
  OK :: bool
  ErrorCode :: "64 word"
  Description :: string
  Parameters :: "ResponseParameters option"

text \<open>
  The libraries that \<open>makeAPICall\<close> calls are parameters. \<open>Marshal\<close> is jsoniter's
  \<open>Marshal\<close> on the parameter object: it may call \<open>MarshalJSON\<close> of the file readers inside
  the object, so it runs on the file state. \<open>ReadMapCB\<close> gives the fields of the top-level
  JSON object in order, each value as \<open>ReadAny().ToString()\<close> renders it. \<open>Unmarshal\<close>
  decodes a response body into the response and the destination. \<open>randomBoundary\<close> is the
  boundary that \<open>multipart.NewWriter\<close> draws.
\<close>

record ('p, 'd) lib =
  Marshal :: "'p \<Rightarrow> fstate \<Rightarrow> (error + bytes) \<times> fstate"
  ReadMapCB :: "bytes \<Rightarrow> (string \<times> string) list"
  Unmarshal :: "bytes \<Rightarrow> 'd \<Rightarrow> (error + Response) \<times> 'd"
  randomBoundary :: string

text \<open>
  What a call does to the outside is kept in a trace: every call of \<open>HttpDoRequest\<close> with its
  arguments, and every \<open>time.Sleep\<close> with its duration in nanoseconds (\<open>time.Duration\<close> is
  an \<open>int64\<close>).
\<close>

datatype event =
  HttpCall string string "(string \<times> string) list" body
| Sleep "64 word"

record 'ts world =
  files :: fstate
  transport :: 'ts
  trace :: "event list"

definition time_Second :: "64 word" where
  "time_Second = 1000000000"

subsection \<open>makeAPICall: encoding the request\<close>

text \<open>
  \<open>iter.ReadMapCB\<close> calls the callback on each field until the callback returns false,
  which it does when \<open>WriteField\<close> fails.
\<close>

fun write_fields :: "(string \<times> string) list \<Rightarrow> Writer \<Rightarrow> error option \<times> Writer" where
  "write_fields [] mw = (None, mw)"
| "write_fields ((s, v) # rest) mw =
     (case WriteField s v mw of
        (Some err, mw') \<Rightarrow> (Some err, mw')
      | (None, mw') \<Rightarrow> write_fields rest mw')"

text \<open>
  The loop over \<open>inputFilesToUpload\<close>. Reading a stream moves it: the reader left in the
  heap is the one \<open>io.Copy\<close> has read to its end. Every entry of the filtered list has a
  reader (\<open>filterInputFilesNeedingUpload\<close> keeps no other, and nothing in between takes a
  reader away), so the case without one, where \<open>io.Copy\<close> would dereference nil, is not
  reached; it is kept so that the function is total.
\<close>

definition set_Reader :: "InputFile \<Rightarrow> reader \<Rightarrow> fstate \<Rightarrow> fstate" where
  "set_Reader inputFile r st =
     (case inputFile of
        FileReaderPtr fr \<Rightarrow> st\<lparr>heap := (heap st)(fr := (heap st fr)\<lparr>Reader := Some r\<rparr>)\<rparr>
      | _ \<Rightarrow> st)"

fun write_files :: "InputFile list \<Rightarrow> Writer \<Rightarrow> fstate \<Rightarrow> (error option \<times> Writer) \<times> fstate" where
  "write_files [] mw st = ((None, mw), st)"
| "write_files (inputFile # rest) mw st =
     (case multipartFormFile inputFile st of
        ((fname, filename, reader), st1) \<Rightarrow>
          (case CreateFormFile fname filename mw of
             (Some err, mw1) \<Rightarrow> ((Some (Errorf ''makeAPICall: %w'' err), mw1), st1)
           | (None, mw1) \<Rightarrow>
               (case reader of
                  None \<Rightarrow> write_files rest mw1 st1
                | Some src \<Rightarrow>
                    (case Copy src mw1 of
                       ((Some err, src'), mw2) \<Rightarrow>
                         ((Some (Errorf ''makeAPICall: %w'' err), mw2), set_Reader inputFile src' st1)
                     | ((None, src'), mw2) \<Rightarrow>
                         write_files rest mw2 (set_Reader inputFile src' st1)))))"

text \<open>
  Lines 107 to 145: the choice between JSON and multipart, and the multipart body.
\<close>

definition encode ::
  "('p, 'd) lib \<Rightarrow> bytes \<Rightarrow> InputFile option list option \<Rightarrow> fstate
    \<Rightarrow> (error + string \<times> body) \<times> fstate" where
  "encode l requestDataJSON inputFiles st =
     (case filterInputFilesNeedingUpload inputFiles st of
        (inputFilesToUpload, st1) \<Rightarrow>
          if len inputFilesToUpload = 0 then (Inr (''application/json'', JSONBody requestDataJSON), st1)
          else
            (let mw = NewWriter (randomBoundary l) in
             case write_fields (ReadMapCB l requestDataJSON) mw of
               (Some err, mw1) \<Rightarrow> (Inl (Errorf ''makeAPICall: %w'' err), st1)
             | (None, mw1) \<Rightarrow>
                 (case write_files (case inputFilesToUpload of None \<Rightarrow> [] | Some fs \<Rightarrow> fs) mw1 st1 of
                    ((Some err, mw2), st2) \<Rightarrow> (Inl err, st2)
                  | ((None, mw2), st2) \<Rightarrow>
                      (case Close mw2 of
                         (Some err, mw3) \<Rightarrow> (Inl (Errorf ''makeAPICall: %w'' err), st2)
                       | (None, mw3) \<Rightarrow>
                           (Inr (FormDataContentType mw3, MultipartBody mw3), st2)))))"

subsection \<open>makeAPICall: the loop\<close>

text \<open>
  Lines 147 to 180. The loop has no bound: it runs again for as long as the responses ask
  to retry, so a call that never returns is \<open>None\<close>. The result of a call that returns is
  the migrated chat identifier, the error (\<open>None\<close> for \<open>nil\<close>) and the destination.
\<close>

type_synonym ('d, 'ts) call_result = "((ChatID \<times> error option) \<times> 'd) \<times> 'ts world"

partial_function (option) makeAPICall_loop ::
  "'ts API \<Rightarrow> ('p, 'd) lib \<Rightarrow> string \<Rightarrow> string \<Rightarrow> body \<Rightarrow> 'd \<Rightarrow> 'ts world
    \<Rightarrow> ('d, 'ts) call_result option" where
  "makeAPICall_loop api l reqURL reqContentType reqBody resultDest w =
     (case HttpDoRequest api ''POST'' reqURL [(''Content-Type'', reqContentType)] reqBody
             (transport w) of
        (r, ts) \<Rightarrow>
          (let w1 = w\<lparr>transport := ts,
                 trace := trace w @
                   [HttpCall ''POST'' reqURL [(''Content-Type'', reqContentType)] reqBody]\<rparr>
           in case r of
                Inl err \<Rightarrow> Some (((0, Some (Errorf ''makeAPICall: %w'' err)), resultDest), w1)
              | Inr respBody \<Rightarrow>
                  (case Unmarshal l respBody resultDest of
                     (Inl err, dest) \<Rightarrow> Some (((0, Some (Errorf ''makeAPICall: %w'' err)), dest), w1)
                   | (Inr apiResp, dest) \<Rightarrow>
                       if \<not> OK apiResp then
                         (case Parameters apiResp of
                            Some apiRespParams \<Rightarrow>
                              if MigrateToChatID apiRespParams \<noteq> 0
                              then Some (((MigrateToChatID apiRespParams, None), dest), w1)
                              else if RetryAfter apiRespParams \<noteq> 0
                              then makeAPICall_loop api l reqURL reqContentType reqBody dest
                                     (w1\<lparr>trace := trace w1 @
                                        [Sleep (time_Second * RetryAfter apiRespParams)]\<rparr>)
                              else Some (((0, Some (Errorf ''makeAPICall - telegram bot api error: %w''
                                       (ErrorNew (Description apiResp)))), dest), w1)
                          | None \<Rightarrow>
                              Some (((0, Some (Errorf ''makeAPICall - telegram bot api error: %w''
                                       (ErrorNew (Description apiResp)))), dest), w1))
                       else Some (((0, None), dest), w1))))"

definition makeAPICall ::
  "'ts API \<Rightarrow> ('p, 'd) lib \<Rightarrow> string \<Rightarrow> 'p \<Rightarrow> InputFile option list option \<Rightarrow> 'd \<Rightarrow> 'ts world
    \<Rightarrow> ('d, 'ts) call_result option" where
  "makeAPICall api l method requestData inputFiles resultDest w =
     (let reqURL = EndpointURL api @ Token api @ ''/'' @ method in
      case Marshal l requestData (files w) of
        (Inl err, st) \<Rightarrow>
          Some (((0, Some (Errorf ''makeAPICall: %w'' err)), resultDest), w\<lparr>files := st\<rparr>)
      | (Inr requestDataJSON, st) \<Rightarrow>
          (case encode l requestDataJSON inputFiles st of
             (Inl err, st') \<Rightarrow> Some (((0, Some err), resultDest), w\<lparr>files := st'\<rparr>)
           | (Inr (reqContentType, reqBody), st') \<Rightarrow>
               makeAPICall_loop api l reqURL reqContentType reqBody resultDest
                 (w\<lparr>files := st'\<rparr>)))"

section \<open>Endpoint wrappers\<close>

subsection \<open>SendMessage\<close>

datatype ChatIDOrUsername = ChatID ChatID | Username string

text \<open>
  The fields of \<open>SendMessageParams\<close>, each under its Go name after the prefix
  \<open>SendMessage_\<close>; \<open>ReplyMarkup\<close> is an interface, here any type \<open>'k\<close>.
\<close>

record 'k SendMessageParams =
  SendMessage_ChatID :: ChatIDOrUsername
  SendMessage_Text :: string
  SendMessage_ParseMode :: string
  SendMessage_Entities :: "MessageEntity list"
  SendMessage_DisableWebPagePreview :: bool
  SendMessage_DisableNotification :: bool
  SendMessage_ProtectContent :: bool
  SendMessage_ReplyToMessageID :: int
  SendMessage_AllowSendingWithoutReply :: bool
  SendMessage_ReplyMarkup :: "'k option"

definition new_Message :: Message where
  "new_Message = \<lparr>Text = [], Entities = [], Caption = [], CaptionEntities = []\<rparr>"

text \<open>
  \<open>params\<close> is a pointer: the assignment to \<open>params.ChatID\<close> is seen by the caller, so the
  parameter object is returned beside the result.
\<close>

definition SendMessage ::
  "'ts API \<Rightarrow> ('k SendMessageParams, Message) lib \<Rightarrow> 'k SendMessageParams \<Rightarrow> 'ts world
    \<Rightarrow> (((Message option \<times> error option) \<times> 'k SendMessageParams) \<times> 'ts world) option" where
  "SendMessage api l params w =
     (case makeAPICall api l ''sendMessage'' params None new_Message w of
        None \<Rightarrow> None
      | Some (((migrateToChatID, err), msg), w1) \<Rightarrow>
          (case err of
             Some e \<Rightarrow>
               if migrateToChatID \<noteq> 0 then
                 (let params' = params\<lparr>SendMessage_ChatID := ChatID migrateToChatID\<rparr> in
                  case makeAPICall api l ''sendMessage'' params' None msg w1 of
                    None \<Rightarrow> None
                  | Some (((_, err'), msg'), w2) \<Rightarrow>
                      (case err' of
                         Some e' \<Rightarrow> Some (((None, Some (Errorf ''SendMessage: %w'' e')), params'), w2)
                       | None \<Rightarrow> Some (((Some msg', None), params'), w2)))
               else Some (((None, Some (Errorf ''SendMessage: %w'' e)), params), w1)
           | None \<Rightarrow> Some (((Some msg, None), params), w1)))"

subsection \<open>GetUpdates\<close>

text \<open>
  An \<open>Update\<close> is its identifier (\<open>UpdateID\<close> is Go's \<open>int\<close>) and its payload, one of the
  optional fields of the struct, here any type \<open>'a\<close>.
\<close>

record 'a Update =
  UpdateID :: "64 word"
  payload :: 'a

record GetUpdatesParams =
  GetUpdates_Offset :: "64 word"
  GetUpdates_Limit :: int
  GetUpdates_Timeout :: int
  GetUpdates_AllowedUpdates :: "string list"

definition GetUpdates ::
  "'ts API \<Rightarrow> (GetUpdatesParams, 'a Update list) lib \<Rightarrow> GetUpdatesParams \<Rightarrow> 'ts world
    \<Rightarrow> (('a Update list \<times> error option) \<times> 'ts world) option" where
  "GetUpdates api l params w =
     (case makeAPICall api l ''getUpdates'' params None [] w of
        None \<Rightarrow> None
      | Some (((_, err), updates), w') \<Rightarrow>
          (case err of
             Some e \<Rightarrow> Some (([], Some (Errorf ''GetUpdates: %w'' e)), w')
           | None \<Rightarrow> Some ((updates, None), w')))"

section \<open>telegrambotTools.go: the update poller\<close>

text \<open>
  \<open>sort.Sort\<close> orders the slice by \<open>Less\<close>, the signed comparison of the identifiers;
  it is taken as a sort by that key.
\<close>

definition SortUpdates :: "'a Update list \<Rightarrow> 'a Update list" where
  "SortUpdates updates = sort_key (\<lambda>u. sint (UpdateID u)) updates"

text \<open>
  The state of the closure that \<open>StartReceivingUpdatesWithParams\<close> hands to the repeater:
  its copy of \<open>params\<close>, and the calls of \<open>receiver\<close> made so far, each with its update
  (\<open>None\<close> for nil) and its error.
\<close>

record 'a poller =
  poller_params :: GetUpdatesParams
  receiver_calls :: "('a Update option \<times> error option) list"

definition poll_cycle ::
  "'ts API \<Rightarrow> (GetUpdatesParams, 'a Update list) lib \<Rightarrow> 'a poller \<times> 'ts world
    \<Rightarrow> ('a poller \<times> 'ts world) option" where
  "poll_cycle api l pw =
     (case pw of
        (p, w) \<Rightarrow>
          (case GetUpdates api l (poller_params p) w of
             None \<Rightarrow> None
           | Some ((updates, err), w') \<Rightarrow>
               (case err of
                  Some e \<Rightarrow> Some (p\<lparr>receiver_calls := receiver_calls p @ [(None, Some e)]\<rparr>, w')
                | None \<Rightarrow>
                    if length updates = 0 then Some (p, w')
                    else
                      (let updates' = SortUpdates updates in
                       Some (p\<lparr>receiver_calls := receiver_calls p @ map (\<lambda>u. (Some u, None)) updates',
                               poller_params := (poller_params p)\<lparr>GetUpdates_Offset :=
                                 UpdateID (last updates') + 1\<rparr>\<rparr>, w')))))"

text \<open>
  \<open>repeater.StartRepeater(0, f)\<close> calls \<open>f\<close> again and again until it is stopped; a
  session that is stopped after \<open>n\<close> cycles runs the closure \<open>n\<close> times.
\<close>

fun StartReceivingUpdatesWithParams ::
  "'ts API \<Rightarrow> (GetUpdatesParams, 'a Update list) lib \<Rightarrow> nat \<Rightarrow> 'a poller \<times> 'ts world
    \<Rightarrow> ('a poller \<times> 'ts world) option" where
  "StartReceivingUpdatesWithParams api l 0 pw = Some pw"
| "StartReceivingUpdatesWithParams api l (Suc n) pw =
     (case poll_cycle api l pw of
        None \<Rightarrow> None
      | Some pw' \<Rightarrow> StartReceivingUpdatesWithParams api l n pw')"

subsection \<open>Responses that ask to retry\<close>

text \<open>
  \<open>asks_to_retry \<dots> rs (dest, ts) = Some (dest', ts')\<close> describes a transport and a
  decoder: from the transport state \<open>ts\<close>, the next \<open>length rs\<close> calls with this request
  each return a body that decodes to a response with \<open>ok = false\<close>, no migration and the
  next non-zero retry-after of \<open>rs\<close>, and leave the destination \<open>dest'\<close> and the transport
  state \<open>ts'\<close>. \<open>round_trace\<close> is what such rounds add to the trace: the call, then the
  sleep of \<open>time.Second * time.Duration(RetryAfter)\<close>.
\<close>

fun asks_to_retry ::
  "'ts API \<Rightarrow> ('p, 'd) lib \<Rightarrow> string \<Rightarrow> string \<Rightarrow> body \<Rightarrow> 64 word list \<Rightarrow> 'd \<times> 'ts
    \<Rightarrow> ('d \<times> 'ts) option" where
  "asks_to_retry api l reqURL reqContentType reqBody [] dts = Some dts"
| "asks_to_retry api l reqURL reqContentType reqBody (r # rs) (dest, ts) =
     (case HttpDoRequest api ''POST'' reqURL [(''Content-Type'', reqContentType)] reqBody ts of
        (Inl err, ts') \<Rightarrow> None
      | (Inr respBody, ts') \<Rightarrow>
          (case Unmarshal l respBody dest of
             (Inl err, dest') \<Rightarrow> None
           | (Inr apiResp, dest') \<Rightarrow>
               (case Parameters apiResp of
                  None \<Rightarrow> None
                | Some ps \<Rightarrow>
                    if \<not> OK apiResp \<and> MigrateToChatID ps = 0 \<and> RetryAfter ps = r \<and> r \<noteq> 0
                    then asks_to_retry api l reqURL reqContentType reqBody rs (dest', ts')
                    else None)))"

definition round_trace :: "string \<Rightarrow> string \<Rightarrow> body \<Rightarrow> 64 word list \<Rightarrow> event list" where
  "round_trace reqURL reqContentType reqBody rs =
     concat (map (\<lambda>r. [HttpCall ''POST'' reqURL [(''Content-Type'', reqContentType)] reqBody,
                         Sleep (time_Second * r)]) rs)"

section \<open>A scripted transport and a decoder by table\<close>

text \<open>
  Test doubles for the examples: a transport that answers from a script, a decoder that looks
  the body up in a table, and a file state without a generated name.
\<close>

definition scripted :: "(error + bytes) list HttpDoRequest" where
  "scripted m url headers b script =
     (case script of
        [] \<Rightarrow> (Inl (ErrorNew ''EOF''), [])
      | r # rest \<Rightarrow> (r, rest))"

definition table_Unmarshal ::
  "(bytes \<times> Response \<times> 'd option) list \<Rightarrow> bytes \<Rightarrow> 'd \<Rightarrow> (error + Response) \<times> 'd" where
  "table_Unmarshal table b dest =
     (case map_of table b of
        None \<Rightarrow> (Inl (ErrorNew ''invalid character''), dest)
      | Some (apiResp, result) \<Rightarrow> (Inr apiResp, case result of None \<Rightarrow> dest | Some v \<Rightarrow> v))"

definition demo_api :: "(error + bytes) list API" where
  "demo_api = \<lparr>Token = ''TOKEN'', EndpointURL = ''https://api.telegram.org/bot'',
     HttpDoRequest = scripted\<rparr>"

definition demo_lib ::
  "('p \<Rightarrow> fstate \<Rightarrow> (error + bytes) \<times> fstate) \<Rightarrow> (bytes \<times> Response \<times> 'd option) list
    \<Rightarrow> ('p, 'd) lib" where
  "demo_lib marshal table =
     \<lparr>Marshal = marshal, ReadMapCB = (\<lambda>js. [(''chat_id'', ''7''), (''photo'', js)]),
      Unmarshal = table_Unmarshal table, randomBoundary = ''xyz''\<rparr>"

definition no_files :: fstate where
  "no_files = \<lparr>heap = (\<lambda>a. \<lparr>Name = [], Reader = None, fieldname = []\<rparr>),
     rand = (\<lambda>i. word_of_nat i)\<rparr>"

definition demo_world :: "(error + bytes) list \<Rightarrow> (error + bytes) list world" where
  "demo_world script = \<lparr>files = no_files, transport = script, trace = []\<rparr>"

definition migrate_response :: Response where
  "migrate_response = \<lparr>OK = False, ErrorCode = 400,
     Description = ''Bad Request: group chat was upgraded to a supergroup chat'',
     Parameters = Some \<lparr>MigrateToChatID = 123, RetryAfter = 5\<rparr>\<rparr>"

definition retry_response :: "64 word \<Rightarrow> Response" where
  "retry_response r = \<lparr>OK = False, ErrorCode = 429,
     Description = ''Too Many Requests'',
     Parameters = Some \<lparr>MigrateToChatID = 0, RetryAfter = r\<rparr>\<rparr>"

definition ok_response :: Response where
  "ok_response = \<lparr>OK = True, ErrorCode = 0, Description = [], Parameters = None\<rparr>"

definition plain_marshal :: "'p \<Rightarrow> fstate \<Rightarrow> (error + bytes) \<times> fstate" where
  "plain_marshal p st = (Inr ''{}'', st)"

definition demo_table :: "(bytes \<times> Response \<times> nat option) list" where
  "demo_table = [(''migrate'', migrate_response, None), (''retry'', retry_response 2, None),
     (''ok'', ok_response, Some 42)]"

definition overflow_table :: "(bytes \<times> Response \<times> nat option) list" where
  "overflow_table = [(''flood'', retry_response 36028797018963968, None),
     (''ok'', ok_response, Some 42)]"

definition hello :: "unit SendMessageParams" where
  "hello = \<lparr>SendMessage_ChatID = ChatID 7, SendMessage_Text = ''hello'',
     SendMessage_ParseMode = [], SendMessage_Entities = [],
     SendMessage_DisableWebPagePreview = False, SendMessage_DisableNotification = False,
     SendMessage_ProtectContent = False, SendMessage_ReplyToMessageID = 0,
     SendMessage_AllowSendingWithoutReply = False, SendMessage_ReplyMarkup = None\<rparr>"

definition sent_message :: Message where
  "sent_message = \<lparr>Text = ''hello'', Entities = [], Caption = [], CaptionEntities = []\<rparr>"

definition message_table :: "(bytes \<times> Response \<times> Message option) list" where
  "message_table = [(''migrate'', migrate_response, None), (''retry'', retry_response 2, None),
     (''ok'', ok_response, Some sent_message)]"

subsection \<open>The cursor of a session\<close>

text \<open>
  The cursor is the \<open>Offset\<close> of the closure's parameters, read as the signed integer it
  is. \<open>fetches_from_cursor \<dots> n (p, w)\<close> describes the provider over the next \<open>n\<close> cycles:
  every batch that a fetch returns without error holds only identifiers that are at least
  the cursor at that fetch and below the largest \<open>int\<close>.
\<close>

definition cursor :: "'a poller \<Rightarrow> int" where
  "cursor p = sint (GetUpdates_Offset (poller_params p))"

fun fetches_from_cursor ::
  "'ts API \<Rightarrow> (GetUpdatesParams, 'a Update list) lib \<Rightarrow> nat \<Rightarrow> 'a poller \<times> 'ts world \<Rightarrow> bool" where
  "fetches_from_cursor api l 0 pw = True"
| "fetches_from_cursor api l (Suc n) (p, w) =
     (case GetUpdates api l (poller_params p) w of
        None \<Rightarrow> True
      | Some ((updates, err), w') \<Rightarrow>
          (err = None \<longrightarrow>
             (\<forall>u\<in>set updates. cursor p \<le> sint (UpdateID u) \<and> sint (UpdateID u) < 2 ^ 63 - 1))
          \<and> (case poll_cycle api l (p, w) of
                None \<Rightarrow> True
              | Some pw' \<Rightarrow> fetches_from_cursor api l n pw'))"

text \<open>Updates, a table of fetched batches and a poller for the examples.\<close>

definition upd :: "64 word \<Rightarrow> string Update" where
  "upd i = \<lparr>UpdateID = i, payload = ''message''\<rparr>"

definition update_table :: "(bytes \<times> Response \<times> string Update list option) list" where
  "update_table =
     [(''batch'', ok_response, Some [upd 5, upd 3, upd 4]),
      (''next'', ok_response, Some [upd 7, upd 6]),
      (''old'', ok_response, Some [upd 3]),
      (''empty'', ok_response, Some [])]"

definition update_lib :: "(GetUpdatesParams, string Update list) lib" where
  "update_lib = demo_lib plain_marshal update_table"

definition poller_at :: "64 word \<Rightarrow> string poller" where
  "poller_at offset =
     \<lparr>poller_params = \<lparr>GetUpdates_Offset = offset, GetUpdates_Limit = 0, GetUpdates_Timeout = 2,
        GetUpdates_AllowedUpdates = [''message'', ''callback_query'']\<rparr>,
      receiver_calls = []\<rparr>"

definition getUpdates_call :: event where
  "getUpdates_call = HttpCall ''POST'' ''https://api.telegram.org/botTOKEN/getUpdates''
     [(''Content-Type'', ''application/json'')] (JSONBody ''{}'')"

definition fetch_error :: error where
  "fetch_error = Errorf ''GetUpdates: %w'' (Errorf ''makeAPICall: %w'' (ErrorNew ''dial tcp: timeout''))"

section \<open>Uses of a file reference, and the entries that are uploaded\<close>










fun touch :: "InputFile option list \<Rightarrow> fstate \<Rightarrow> fstate" where
  "touch [] st = st"
| "touch (None # fs) st = touch fs st"
| "touch (Some f # fs) st = touch fs (snd (multipartFormFile f st))"






section \<open>Callback data round trip\<close>

lemma Index_char:
  "Index s [c] = (if c \<in> set s then int (length (takeWhile (\<lambda>x. x \<noteq> c) s)) else - 1)"
  by (induction s) (auto simp: Let_def)

lemma Index_absent: "c \<notin> set s \<Longrightarrow> Index s [c] = - 1"
  by (induction s) auto

lemma Index_first: "c \<notin> set s \<Longrightarrow> Index (s @ c # t) [c] = int (length s)"
  by (induction s) auto

text \<open>
  C9. For a command without the NUL byte and any args, decompiling the compiled callback
  data gives back the command and the args; with empty args the compiled data is the bare
  command.
\<close>

theorem DecompileCbQryData_CompileCbQryData:
  assumes "CHR 0x00 \<notin> set command"
  shows "DecompileCbQryData (CompileCbQryData command args) = (command, args)
    \<and> CompileCbQryData command [] = command"
proof (cases "args = []")
  case True
  with assms show ?thesis
    by (simp add: DecompileCbQryData_def CompileCbQryData_def numeral_2_eq_2 Index_absent)
next
  case False
  with assms show ?thesis
    by (simp add: DecompileCbQryData_def CompileCbQryData_def numeral_2_eq_2 Index_first
        Index_absent)
qed

theorem DecompileCbQryData_CompileCbQryData_witness:
  "CHR 0x00 \<notin> set ''buy''
   \<and> DecompileCbQryData (CompileCbQryData ''buy'' ''item=3'') = (''buy'', ''item=3'')
   \<and> CompileCbQryData ''buy'' [] = ''buy''"
  using DecompileCbQryData_CompileCbQryData [of "''buy''" "''item=3''"] by simp

section \<open>Commands of a message\<close>

lemma strip_username:
  "(if Index command ''@'' \<noteq> - 1 then slice_to command (Index command ''@'') else Inr command)
   = Inr (takeWhile (\<lambda>x. x \<noteq> CHR ''@'') command)"
proof (cases "CHR ''@'' \<in> set command")
  case True
  then show ?thesis
    by (simp add: Index_char slice_to_def slice_expr_def length_takeWhile_le
        takeWhile_eq_take [symmetric])
next
  case False
  then have tw: "takeWhile (\<lambda>x. x \<noteq> CHR ''@'') command = command"
    by (induction command) auto
  from False have "Index command ''@'' = - 1"
    by (simp only: Index_char if_False)
  then show ?thesis
    by (simp only: tw) simp
qed

lemma ParseMessageCommand_loop_skip:
  "\<forall>e\<in>set pre. Type e \<noteq> MessageEntityTypeBotCommand \<or> Offset e \<noteq> 0 \<Longrightarrow>
   ParseMessageCommand_loop TrimSpace text (pre @ rest)
     = ParseMessageCommand_loop TrimSpace text rest"
  by (induction pre) auto

lemma ParseMessageCommand_loop_hit:
  assumes "Type entity = MessageEntityTypeBotCommand" "Offset entity = 0"
  shows "ParseMessageCommand_loop TrimSpace text (entity # post) =
    (if 1 \<le> Length entity \<and> Length entity \<le> int (length text)
     then Inr (takeWhile (\<lambda>x. x \<noteq> CHR ''@'') (take (nat (Length entity) - 1) (drop 1 text)),
               TrimSpace (drop (nat (Length entity)) text))
     else Inl SliceBoundsOutOfRange)"
proof (cases "1 \<le> Length entity \<and> Length entity \<le> int (length text)")
  case True
  then have s1: "slice_expr text 1 (Length entity)
      = Inr (take (nat (Length entity) - 1) (drop 1 text))"
    by (simp add: slice_expr_def nat_diff_distrib)
  from True have s2: "slice_from text (Length entity) = Inr (drop (nat (Length entity)) text)"
    by (simp add: slice_from_def slice_expr_def)
  from True show ?thesis using assms
    by (simp add: s1 s2 strip_username del: Index.simps)
next
  case False
  then have "slice_expr text 1 (Length entity) = Inl SliceBoundsOutOfRange"
    by (auto simp add: slice_expr_def)
  with False show ?thesis using assms by simp
qed

text \<open>
  C10. \<open>ParseMessageCommand\<close> slices the text (or, when the text is empty, the caption) by
  the declared \<open>Length\<close> of the first bot-command entity at offset 0. When
  \<open>1 \<le> Length \<le> len(text)\<close> it returns without a panic: the command is what lies between
  the leading byte and \<open>Length\<close>, cut at the first \<open>@\<close>, and the args are the trimmed
  rest. When \<open>Length\<close> exceeds the length of the text, both slice expressions
  \<open>text[1:Length]\<close> and \<open>text[Length:]\<close> are out of range and the function panics.
\<close>

theorem ParseMessageCommand_bounds:
  assumes sel: "(text, textEntities) =
      (if Text msg \<noteq> [] then (Text msg, Entities msg) else (Caption msg, CaptionEntities msg))"
    and nonempty: "text \<noteq> []"
    and first: "textEntities = pre @ entity # post"
      "\<forall>e\<in>set pre. Type e \<noteq> MessageEntityTypeBotCommand \<or> Offset e \<noteq> 0"
      "Type entity = MessageEntityTypeBotCommand" "Offset entity = 0"
  shows "(1 \<le> Length entity \<and> Length entity \<le> int (length text) \<longrightarrow>
      ParseMessageCommand TrimSpace msg =
        Inr (takeWhile (\<lambda>c. c \<noteq> CHR ''@'') (take (nat (Length entity) - 1) (drop 1 text)),
             TrimSpace (drop (nat (Length entity)) text)))
    \<and> (int (length text) < Length entity \<longrightarrow>
      slice_expr text 1 (Length entity) = Inl SliceBoundsOutOfRange
      \<and> slice_from text (Length entity) = Inl SliceBoundsOutOfRange
      \<and> ParseMessageCommand TrimSpace msg = Inl SliceBoundsOutOfRange)"
proof -
  have run: "ParseMessageCommand TrimSpace msg
      = ParseMessageCommand_loop TrimSpace text (entity # post)"
  proof (cases "Text msg \<noteq> []")
    case True
    with sel have "Text msg = text" "Entities msg = textEntities" by simp_all
    with True first(1,2) show ?thesis
      by (simp add: ParseMessageCommand_def ParseMessageCommand_loop_skip
          del: ParseMessageCommand_loop.simps)
  next
    case False
    with sel have "Caption msg = text" "CaptionEntities msg = textEntities" by simp_all
    with False nonempty first(1,2) show ?thesis
      by (simp add: ParseMessageCommand_def ParseMessageCommand_loop_skip
          del: ParseMessageCommand_loop.simps)
  qed
  have oob: "int (length text) < Length entity \<Longrightarrow>
      slice_expr text 1 (Length entity) = Inl SliceBoundsOutOfRange
      \<and> slice_from text (Length entity) = Inl SliceBoundsOutOfRange"
    by (simp add: slice_expr_def slice_from_def)
  show ?thesis
    using oob by (simp add: run ParseMessageCommand_loop_hit [OF first(3,4)]
        del: ParseMessageCommand_loop.simps)
qed

theorem ParseMessageCommand_bounds_witness:
  "ParseMessageCommand id \<lparr>Text = ''/start@mybot now'',
       Entities = [\<lparr>Type = ''bold'', Offset = 0, Length = 3\<rparr>,
                   \<lparr>Type = ''bot_command'', Offset = 0, Length = 12\<rparr>],
       Caption = [], CaptionEntities = []\<rparr> = Inr (''start'', '' now'')
   \<and> ParseMessageCommand id \<lparr>Text = [], Entities = [], Caption = ''/go'',
       CaptionEntities = [\<lparr>Type = ''bot_command'', Offset = 0, Length = 4\<rparr>]\<rparr>
       = Inl SliceBoundsOutOfRange"
proof -
  let ?bold = "\<lparr>Type = ''bold'', Offset = 0, Length = 3\<rparr>"
  let ?cmd = "\<lparr>Type = ''bot_command'', Offset = 0, Length = 12\<rparr>"
  let ?msg = "\<lparr>Text = ''/start@mybot now'', Entities = [?bold, ?cmd],
       Caption = [], CaptionEntities = []\<rparr>"
  let ?long = "\<lparr>Type = ''bot_command'', Offset = 0, Length = 4\<rparr>"
  let ?cap = "\<lparr>Text = [], Entities = [], Caption = ''/go'', CaptionEntities = [?long]\<rparr>"
  have sel: "(''/start@mybot now'', [?bold, ?cmd]) =
      (if Text ?msg \<noteq> [] then (Text ?msg, Entities ?msg) else (Caption ?msg, CaptionEntities ?msg))"
    by simp
  have ne: "''/start@mybot now'' \<noteq> []" by simp
  have sp: "[?bold, ?cmd] = [?bold] @ ?cmd # []" by simp
  have sk: "\<forall>e\<in>set [?bold]. Type e \<noteq> MessageEntityTypeBotCommand \<or> Offset e \<noteq> 0"
    by (simp add: MessageEntityTypeBotCommand_def)
  have ty: "Type ?cmd = MessageEntityTypeBotCommand" by (simp add: MessageEntityTypeBotCommand_def)
  have off: "Offset ?cmd = 0" by simp
  note t = ParseMessageCommand_bounds [OF sel ne sp sk ty off, of id]
  have a: "ParseMessageCommand id ?msg = Inr (''start'', '' now'')"
    using t by simp
  have sel': "(''/go'', [?long]) =
      (if Text ?cap \<noteq> [] then (Text ?cap, Entities ?cap) else (Caption ?cap, CaptionEntities ?cap))"
    by simp
  have ne': "''/go'' \<noteq> []" by simp
  have sp': "[?long] = [] @ ?long # []" by simp
  have sk': "\<forall>e\<in>set []. Type e \<noteq> MessageEntityTypeBotCommand \<or> Offset e \<noteq> 0"
    by simp
  have ty': "Type ?long = MessageEntityTypeBotCommand"
    by (simp add: MessageEntityTypeBotCommand_def)
  have off': "Offset ?long = 0" by simp
  note t' = ParseMessageCommand_bounds [OF sel' ne' sp' sk' ty' off', of id]
  have b: "ParseMessageCommand id ?cap = Inl SliceBoundsOutOfRange"
    using t' by simp
  from a b show ?thesis by (simp only: simp_thms)
qed

section \<open>The dispatcher's soft failures\<close>

lemma makeAPICall_unfold:
  assumes "Marshal l requestData (files w) = (Inr requestDataJSON, st)"
    and "encode l requestDataJSON inputFiles st = (Inr (reqContentType, reqBody), st')"
  shows "makeAPICall api l method requestData inputFiles resultDest w =
    makeAPICall_loop api l (EndpointURL api @ Token api @ ''/'' @ method) reqContentType
      reqBody resultDest (w\<lparr>files := st'\<rparr>)"
  using assms by (simp add: makeAPICall_def)

lemma makeAPICall_loop_migrate:
  assumes "HttpDoRequest api ''POST'' reqURL [(''Content-Type'', ct)] reqBody (transport w)
      = (Inr respBody, ts)"
    and "Unmarshal l respBody dest = (Inr apiResp, dest')"
    and "\<not> OK apiResp" "Parameters apiResp = Some ps" "MigrateToChatID ps \<noteq> 0"
  shows "makeAPICall_loop api l reqURL ct reqBody dest w =
    Some (((MigrateToChatID ps, None), dest'),
      w\<lparr>transport := ts,
        trace := trace w @ [HttpCall ''POST'' reqURL [(''Content-Type'', ct)] reqBody]\<rparr>)"
  using assms by (subst makeAPICall_loop.simps) simp

lemma makeAPICall_loop_success:
  assumes "HttpDoRequest api ''POST'' reqURL [(''Content-Type'', ct)] reqBody (transport w)
      = (Inr respBody, ts)"
    and "Unmarshal l respBody dest = (Inr apiResp, dest')"
    and "OK apiResp"
  shows "makeAPICall_loop api l reqURL ct reqBody dest w =
    Some (((0, None), dest'),
      w\<lparr>transport := ts,
        trace := trace w @ [HttpCall ''POST'' reqURL [(''Content-Type'', ct)] reqBody]\<rparr>)"
  using assms by (subst makeAPICall_loop.simps) simp

lemma makeAPICall_loop_retry:
  assumes "HttpDoRequest api ''POST'' reqURL [(''Content-Type'', ct)] reqBody (transport w)
      = (Inr respBody, ts)"
    and "Unmarshal l respBody dest = (Inr apiResp, dest')"
    and "\<not> OK apiResp" "Parameters apiResp = Some ps" "MigrateToChatID ps = 0"
      "RetryAfter ps \<noteq> 0"
  shows "makeAPICall_loop api l reqURL ct reqBody dest w =
    makeAPICall_loop api l reqURL ct reqBody dest'
      (w\<lparr>transport := ts,
        trace := trace w @ [HttpCall ''POST'' reqURL [(''Content-Type'', ct)] reqBody,
           Sleep (time_Second * RetryAfter ps)]\<rparr>)"
  using assms by (subst makeAPICall_loop.simps) simp

lemma makeAPICall_loop_rounds:
  "asks_to_retry api l reqURL ct reqBody rs (dest, transport w) = Some (dest', ts) \<Longrightarrow>
   makeAPICall_loop api l reqURL ct reqBody dest w =
   makeAPICall_loop api l reqURL ct reqBody dest'
     (w\<lparr>transport := ts, trace := trace w @ round_trace reqURL ct reqBody rs\<rparr>)"
proof (induction rs arbitrary: dest w)
  case Nil
  then show ?case by (auto simp add: round_trace_def)
next
  case (Cons r rs)
  from Cons.prems obtain respBody ts1 apiResp dest1 ps where
    http: "HttpDoRequest api ''POST'' reqURL [(''Content-Type'', ct)] reqBody (transport w)
      = (Inr respBody, ts1)"
    and dec: "Unmarshal l respBody dest = (Inr apiResp, dest1)"
    and ps: "Parameters apiResp = Some ps"
    and cond: "\<not> OK apiResp" "MigrateToChatID ps = 0" "RetryAfter ps = r" "r \<noteq> 0"
    and rest: "asks_to_retry api l reqURL ct reqBody rs (dest1, ts1) = Some (dest', ts)"
    by (auto split: prod.splits sum.splits option.splits if_splits)
  let ?w1 = "w\<lparr>transport := ts1,
        trace := trace w @ [HttpCall ''POST'' reqURL [(''Content-Type'', ct)] reqBody,
           Sleep (time_Second * RetryAfter ps)]\<rparr>"
  have "makeAPICall_loop api l reqURL ct reqBody dest w
      = makeAPICall_loop api l reqURL ct reqBody dest1 ?w1"
    using http dec ps cond by (intro makeAPICall_loop_retry) simp_all
  also have "\<dots> = makeAPICall_loop api l reqURL ct reqBody dest'
     (?w1\<lparr>transport := ts, trace := trace ?w1 @ round_trace reqURL ct reqBody rs\<rparr>)"
    using rest by (intro Cons.IH) simp
  finally show ?case using cond by (simp add: round_trace_def)
qed

text \<open>
  C1. When the first response of a call has \<open>ok = false\<close> and parameters with a non-zero
  \<open>migrate_to_chat_id\<close>, \<open>makeAPICall\<close> returns that identifier with a nil error, and
  what it has done is exactly one call of the transport and no sleep. Nothing is assumed
  about \<open>retry_after\<close>: when both fields are non-zero the migration branch is the one
  taken.
\<close>

theorem makeAPICall_migration:
  assumes marshal: "Marshal l requestData (files w) = (Inr requestDataJSON, st)"
    and enc: "encode l requestDataJSON inputFiles st = (Inr (reqContentType, reqBody), st')"
    and http: "HttpDoRequest api ''POST'' (EndpointURL api @ Token api @ ''/'' @ method)
        [(''Content-Type'', reqContentType)] reqBody (transport w) = (Inr respBody, ts)"
    and dec: "Unmarshal l respBody resultDest = (Inr apiResp, dest)"
    and soft: "\<not> OK apiResp" "Parameters apiResp = Some ps" "MigrateToChatID ps \<noteq> 0"
  shows "makeAPICall api l method requestData inputFiles resultDest w =
    Some (((MigrateToChatID ps, None), dest),
      w\<lparr>files := st', transport := ts,
        trace := trace w @ [HttpCall ''POST'' (EndpointURL api @ Token api @ ''/'' @ method)
          [(''Content-Type'', reqContentType)] reqBody]\<rparr>)"
proof -
  let ?w = "w\<lparr>files := st'\<rparr>"
  have "makeAPICall api l method requestData inputFiles resultDest w =
      makeAPICall_loop api l (EndpointURL api @ Token api @ ''/'' @ method) reqContentType
        reqBody resultDest ?w"
    by (simp add: makeAPICall_def marshal enc)
  also have "\<dots> = Some (((MigrateToChatID ps, None), dest),
      ?w\<lparr>transport := ts,
        trace := trace ?w @ [HttpCall ''POST'' (EndpointURL api @ Token api @ ''/'' @ method)
          [(''Content-Type'', reqContentType)] reqBody]\<rparr>)"
    using http dec soft by (intro makeAPICall_loop_migrate) simp_all
  finally show ?thesis by simp
qed

theorem makeAPICall_migration_witness:
  "map_option (\<lambda>r. (fst r, trace (snd r)))
     (makeAPICall demo_api (demo_lib plain_marshal demo_table) ''sendMessage'' () None (0::nat)
        (demo_world [Inr ''migrate'', Inr ''ok'']))
   = Some (((123, None), 0),
       [HttpCall ''POST'' ''https://api.telegram.org/botTOKEN/sendMessage''
          [(''Content-Type'', ''application/json'')] (JSONBody ''{}'')])"
proof -
  let ?l = "demo_lib plain_marshal demo_table :: (unit, nat) lib"
  let ?w = "demo_world [Inr ''migrate'', Inr ''ok'']"
  have marshal: "Marshal ?l () (files ?w) = (Inr ''{}'', no_files)"
    by (simp add: demo_lib_def plain_marshal_def demo_world_def)
  have enc: "encode ?l ''{}'' None no_files = (Inr (''application/json'', JSONBody ''{}''), no_files)"
    by (simp add: encode_def filterInputFilesNeedingUpload_def len_def)
  have http: "HttpDoRequest demo_api ''POST'' (EndpointURL demo_api @ Token demo_api @ ''/'' @ ''sendMessage'')
        [(''Content-Type'', ''application/json'')] (JSONBody ''{}'') (transport ?w)
      = (Inr ''migrate'', [Inr ''ok''])"
    by (simp add: demo_api_def scripted_def demo_world_def)
  have dec: "Unmarshal ?l ''migrate'' 0 = (Inr migrate_response, 0)"
    by (simp add: demo_lib_def table_Unmarshal_def demo_table_def)
  have soft: "\<not> OK migrate_response"
    "Parameters migrate_response = Some \<lparr>MigrateToChatID = 123, RetryAfter = 5\<rparr>"
    "MigrateToChatID \<lparr>MigrateToChatID = 123, RetryAfter = 5\<rparr> \<noteq> 0"
    by (simp_all add: migrate_response_def)
  show ?thesis
    using makeAPICall_migration [OF marshal enc http dec soft]
    by (simp add: demo_api_def demo_world_def)
qed

lemma sint_time_Second_mult:
  fixes r :: "64 word"
  assumes "0 < sint r" "sint r \<le> 9223372036"
  shows "sint (time_Second * r) = 1000000000 * sint r"
proof -
  have s: "sint (time_Second :: 64 word) = 1000000000"
    by (simp add: time_Second_def)
  from assms have lo: "- (2 ^ 63) \<le> 1000000000 * sint r" by simp
  from assms have "1000000000 * sint r \<le> 1000000000 * 9223372036"
    by (intro mult_left_mono) simp_all
  then have hi: "1000000000 * sint r < 2 ^ 63" by simp
  show ?thesis
    using lo hi by (simp add: sint_word_ariths s signed_take_bit_int_eq_self)
qed

text \<open>
  C2, amended. When the responses have \<open>ok = false\<close>, no migration and a
  \<open>retry_after\<close> between 1 and 9223372036 for any number of rounds \<open>rs\<close>, and the next
  response has \<open>ok = true\<close>, \<open>makeAPICall\<close> returns no error and the destination as the
  last response decoded it. Each round is a call of the transport followed by a sleep of
  \<open>time.Second * time.Duration(RetryAfter)\<close>, which in this range is that many seconds
  (the product does not leave \<open>int64\<close>); every call carries the same content type and the
  same body that was encoded once, and the file state is the one the encoding left.
\<close>

theorem makeAPICall_rate_limit:
  assumes marshal: "Marshal l requestData (files w) = (Inr requestDataJSON, st)"
    and enc: "encode l requestDataJSON inputFiles st = (Inr (reqContentType, reqBody), st')"
    and rounds: "asks_to_retry api l (EndpointURL api @ Token api @ ''/'' @ method)
        reqContentType reqBody rs (resultDest, transport w) = Some (dest1, ts1)"
    and range: "\<forall>r\<in>set rs. 0 < sint r \<and> sint r \<le> 9223372036"
    and http: "HttpDoRequest api ''POST'' (EndpointURL api @ Token api @ ''/'' @ method)
        [(''Content-Type'', reqContentType)] reqBody ts1 = (Inr respBody, ts2)"
    and dec: "Unmarshal l respBody dest1 = (Inr apiResp, dest2)"
    and ok: "OK apiResp"
  shows "makeAPICall api l method requestData inputFiles resultDest w =
    Some (((0, None), dest2),
      w\<lparr>files := st', transport := ts2,
        trace := trace w
          @ round_trace (EndpointURL api @ Token api @ ''/'' @ method) reqContentType reqBody rs
          @ [HttpCall ''POST'' (EndpointURL api @ Token api @ ''/'' @ method)
               [(''Content-Type'', reqContentType)] reqBody]\<rparr>)
    \<and> (\<forall>r\<in>set rs. sint (time_Second * r) = 1000000000 * sint r)"
proof -
  let ?url = "EndpointURL api @ Token api @ ''/'' @ method"
  let ?w = "w\<lparr>files := st'\<rparr>"
  let ?w1 = "?w\<lparr>transport := ts1, trace := trace ?w @ round_trace ?url reqContentType reqBody rs\<rparr>"
  have "makeAPICall api l method requestData inputFiles resultDest w =
      makeAPICall_loop api l ?url reqContentType reqBody resultDest ?w"
    by (simp add: makeAPICall_def marshal enc)
  also have "\<dots> = makeAPICall_loop api l ?url reqContentType reqBody dest1 ?w1"
    using rounds by (intro makeAPICall_loop_rounds) simp
  also have "\<dots> = Some (((0, None), dest2),
      ?w1\<lparr>transport := ts2,
        trace := trace ?w1 @ [HttpCall ''POST'' ?url [(''Content-Type'', reqContentType)] reqBody]\<rparr>)"
    using http dec ok by (intro makeAPICall_loop_success) simp_all
  finally have run: "makeAPICall api l method requestData inputFiles resultDest w =
    Some (((0, None), dest2),
      w\<lparr>files := st', transport := ts2,
        trace := trace w @ round_trace ?url reqContentType reqBody rs
          @ [HttpCall ''POST'' ?url [(''Content-Type'', reqContentType)] reqBody]\<rparr>)"
    by simp
  have "\<forall>r\<in>set rs. sint (time_Second * r) = 1000000000 * sint r"
    using range by (auto intro: sint_time_Second_mult)
  with run show ?thesis by (simp only: simp_thms)
qed

theorem makeAPICall_rate_limit_witness:
  "makeAPICall demo_api (demo_lib plain_marshal demo_table) ''sendMessage'' () None (0::nat)
        (demo_world [Inr ''retry'', Inr ''ok''])
   = Some (((0, None), 42),
       \<lparr>files = no_files, transport = [],
        trace = [HttpCall ''POST'' ''https://api.telegram.org/botTOKEN/sendMessage''
          [(''Content-Type'', ''application/json'')] (JSONBody ''{}''),
        Sleep 2000000000,
        HttpCall ''POST'' ''https://api.telegram.org/botTOKEN/sendMessage''
          [(''Content-Type'', ''application/json'')] (JSONBody ''{}'')]\<rparr>)
   \<and> sint (2000000000 :: 64 word) = 1000000000 * 2"
proof -
  let ?l = "demo_lib plain_marshal demo_table :: (unit, nat) lib"
  let ?w = "demo_world [Inr ''retry'', Inr ''ok'']"
  let ?url = "EndpointURL demo_api @ Token demo_api @ ''/'' @ ''sendMessage''"
  have marshal: "Marshal ?l () (files ?w) = (Inr ''{}'', no_files)"
    by (simp add: demo_lib_def plain_marshal_def demo_world_def)
  have enc: "encode ?l ''{}'' None no_files = (Inr (''application/json'', JSONBody ''{}''), no_files)"
    by (simp add: encode_def filterInputFilesNeedingUpload_def len_def)
  have rounds: "asks_to_retry demo_api ?l ?url ''application/json'' (JSONBody ''{}'') [2]
      (0, transport ?w) = Some (0, [Inr ''ok''])"
    by (simp add: demo_api_def scripted_def demo_world_def demo_lib_def table_Unmarshal_def
        demo_table_def retry_response_def)
  have range: "\<forall>r\<in>set [2 :: 64 word]. 0 < sint r \<and> sint r \<le> 9223372036"
    by simp
  have http: "HttpDoRequest demo_api ''POST'' ?url
        [(''Content-Type'', ''application/json'')] (JSONBody ''{}'') [Inr ''ok'']
      = (Inr ''ok'', [])"
    by (simp add: demo_api_def scripted_def)
  have dec: "Unmarshal ?l ''ok'' 0 = (Inr ok_response, 42)"
    by (simp add: demo_lib_def table_Unmarshal_def demo_table_def)
  have ok: "OK ok_response"
    by (simp add: ok_response_def)
  show ?thesis
    using makeAPICall_rate_limit [OF marshal enc rounds range http dec ok]
    by (simp add: demo_api_def demo_world_def round_trace_def time_Second_def)
qed

text \<open>
  C2 as stated fails: the duration is computed in \<open>int64\<close> nanoseconds and wraps. On a
  response with \<open>retry_after = 2 ^ 55\<close>, which is non-zero, the call is reissued after a
  sleep of 0 nanoseconds, not of that many seconds.
\<close>

theorem makeAPICall_rate_limit_counterexample:
  "makeAPICall demo_api (demo_lib plain_marshal overflow_table) ''sendMessage'' () None (0::nat)
        (demo_world [Inr ''flood'', Inr ''ok''])
   = Some (((0, None), 42),
       \<lparr>files = no_files, transport = [],
        trace = [HttpCall ''POST'' ''https://api.telegram.org/botTOKEN/sendMessage''
          [(''Content-Type'', ''application/json'')] (JSONBody ''{}''),
        Sleep 0,
        HttpCall ''POST'' ''https://api.telegram.org/botTOKEN/sendMessage''
          [(''Content-Type'', ''application/json'')] (JSONBody ''{}'')]\<rparr>)
   \<and> (36028797018963968 :: 64 word) \<noteq> 0
   \<and> sint (0 :: 64 word) \<noteq> 1000000000 * sint (36028797018963968 :: 64 word)"
proof -
  let ?l = "demo_lib plain_marshal overflow_table :: (unit, nat) lib"
  let ?w = "demo_world [Inr ''flood'', Inr ''ok'']"
  let ?url = "EndpointURL demo_api @ Token demo_api @ ''/'' @ ''sendMessage''"
  let ?w' = "?w\<lparr>files := no_files\<rparr>"
  have marshal: "Marshal ?l () (files ?w) = (Inr ''{}'', no_files)"
    by (simp add: demo_lib_def plain_marshal_def demo_world_def)
  have enc: "encode ?l ''{}'' None no_files = (Inr (''application/json'', JSONBody ''{}''), no_files)"
    by (simp add: encode_def filterInputFilesNeedingUpload_def len_def)
  have rounds: "asks_to_retry demo_api ?l ?url ''application/json'' (JSONBody ''{}'')
      [36028797018963968] (0, transport ?w') = Some (0, [Inr ''ok''])"
    by (simp add: demo_api_def scripted_def demo_world_def demo_lib_def table_Unmarshal_def
        overflow_table_def retry_response_def)
  let ?w1 = "?w'\<lparr>transport := [Inr ''ok''],
      trace := trace ?w' @ round_trace ?url ''application/json'' (JSONBody ''{}'') [36028797018963968]\<rparr>"
  have http: "HttpDoRequest demo_api ''POST'' ?url
        [(''Content-Type'', ''application/json'')] (JSONBody ''{}'') (transport ?w1)
      = (Inr ''ok'', [])"
    by (simp add: demo_api_def scripted_def)
  have dec: "Unmarshal ?l ''ok'' 0 = (Inr ok_response, 42)"
    by (simp add: demo_lib_def table_Unmarshal_def overflow_table_def)
  have ok: "OK ok_response"
    by (simp add: ok_response_def)
  have wrap: "time_Second * (36028797018963968 :: 64 word) = 0"
    by (simp add: time_Second_def)
  have "makeAPICall demo_api ?l ''sendMessage'' () None (0::nat) ?w
      = makeAPICall_loop demo_api ?l ?url ''application/json'' (JSONBody ''{}'') 0 ?w'"
    by (rule makeAPICall_unfold [OF marshal enc])
  also have "\<dots> = makeAPICall_loop demo_api ?l ?url ''application/json'' (JSONBody ''{}'') 0 ?w1"
    by (rule makeAPICall_loop_rounds [OF rounds])
  also have "\<dots> = Some (((0, None), 42), ?w1\<lparr>transport := [],
      trace := trace ?w1 @ [HttpCall ''POST'' ?url [(''Content-Type'', ''application/json'')]
        (JSONBody ''{}'')]\<rparr>)"
    by (rule makeAPICall_loop_success [OF http dec ok])
  finally show ?thesis
    by (simp add: demo_api_def demo_world_def round_trace_def wrap retry_response_def)
qed

section \<open>Migration and the wrappers\<close>

lemma makeAPICall_loop_error_no_migration:
  assumes "makeAPICall_loop api l reqURL ct reqBody dest w = Some r"
  shows "snd (fst (fst r)) \<noteq> None \<longrightarrow> fst (fst (fst r)) = 0"
  by (rule makeAPICall_loop.raw_induct
      [where P = "\<lambda>api l reqURL ct reqBody dest w r.
         snd (fst (fst r)) \<noteq> None \<longrightarrow> fst (fst (fst r)) = 0", OF _ assms])
    (auto split: prod.splits sum.splits option.splits if_splits simp: Let_def)

lemma makeAPICall_error_no_migration:
  assumes "makeAPICall api l method requestData inputFiles dest w = Some (((m, Some e), d), w')"
  shows "m = 0"
  using assms makeAPICall_loop_error_no_migration
  by (fastforce simp: makeAPICall_def Let_def split: prod.splits sum.splits)

lemma SendMessage_never_reissues:
  "SendMessage api l params w =
     (case makeAPICall api l ''sendMessage'' params None new_Message w of
        None \<Rightarrow> None
      | Some (((migrateToChatID, err), msg), w1) \<Rightarrow>
          (case err of
             Some e \<Rightarrow> Some (((None, Some (Errorf ''SendMessage: %w'' e)), params), w1)
           | None \<Rightarrow> Some (((Some msg, None), params), w1)))"
proof (cases "makeAPICall api l ''sendMessage'' params None new_Message w")
  case None
  then show ?thesis by (simp add: SendMessage_def)
next
  case (Some r)
  obtain m err msg w1 where r: "r = (((m, err), msg), w1)"
    by (metis prod.collapse)
  show ?thesis
  proof (cases err)
    case None
    with Some r show ?thesis by (simp add: SendMessage_def)
  next
    case (Some e)
    with \<open>makeAPICall api l ''sendMessage'' params None new_Message w = Some r\<close> r
    have "m = 0" by (auto dest: makeAPICall_error_no_migration)
    with Some \<open>makeAPICall api l ''sendMessage'' params None new_Message w = Some r\<close> r
    show ?thesis by (simp add: SendMessage_def)
  qed
qed

text \<open>
  C3. \<open>SendMessage\<close> reissues the call only under \<open>err != nil\<close>, and \<open>makeAPICall\<close>
  signals a migration with a nil error, so the call is not reissued. With a transport that
  answers the first call with \<open>migrate_to_chat_id = 123\<close> and would answer a second one
  with success, \<open>SendMessage\<close> makes one call of the transport, leaves the second answer
  unread and the chat identifier of the parameters unchanged, and returns the empty message
  with a nil error.
\<close>

theorem SendMessage_migration_not_reissued:
  "map_option (\<lambda>r. (fst r, trace (snd r), transport (snd r)))
     (SendMessage demo_api (demo_lib plain_marshal message_table) hello
        (demo_world [Inr ''migrate'', Inr ''ok'']))
   = Some (((Some new_Message, None), hello),
       [HttpCall ''POST'' ''https://api.telegram.org/botTOKEN/sendMessage''
          [(''Content-Type'', ''application/json'')] (JSONBody ''{}'')],
       [Inr ''ok''])"
proof -
  let ?l = "demo_lib plain_marshal message_table :: (unit SendMessageParams, Message) lib"
  let ?w = "demo_world [Inr ''migrate'', Inr ''ok'']"
  have marshal: "Marshal ?l hello (files ?w) = (Inr ''{}'', no_files)"
    by (simp add: demo_lib_def plain_marshal_def demo_world_def)
  have enc: "encode ?l ''{}'' None no_files = (Inr (''application/json'', JSONBody ''{}''), no_files)"
    by (simp add: encode_def filterInputFilesNeedingUpload_def len_def)
  have dec: "Unmarshal ?l ''migrate'' new_Message = (Inr migrate_response, new_Message)"
    by (simp add: demo_lib_def table_Unmarshal_def message_table_def)
  have soft: "\<not> OK migrate_response"
    "Parameters migrate_response = Some \<lparr>MigrateToChatID = 123, RetryAfter = 5\<rparr>"
    "MigrateToChatID \<lparr>MigrateToChatID = 123, RetryAfter = 5\<rparr> \<noteq> 0"
    by (simp_all add: migrate_response_def)
  let ?w' = "?w\<lparr>files := no_files\<rparr>"
  have http: "HttpDoRequest demo_api ''POST'' (EndpointURL demo_api @ Token demo_api @ ''/'' @ ''sendMessage'')
        [(''Content-Type'', ''application/json'')] (JSONBody ''{}'') (transport ?w')
      = (Inr ''migrate'', [Inr ''ok''])"
    by (simp add: demo_api_def scripted_def demo_world_def)
  have "makeAPICall demo_api ?l ''sendMessage'' hello None new_Message ?w
    = Some (((123, None), new_Message), ?w'\<lparr>transport := [Inr ''ok''],
        trace := trace ?w' @ [HttpCall ''POST'' (EndpointURL demo_api @ Token demo_api @ ''/'' @ ''sendMessage'')
          [(''Content-Type'', ''application/json'')] (JSONBody ''{}'')]\<rparr>)"
    using makeAPICall_loop_migrate [OF http dec soft]
    by (simp only: makeAPICall_unfold [OF marshal enc]) simp
  then show ?thesis
    by (simp add: SendMessage_def demo_api_def demo_world_def)
qed

section \<open>The update poller\<close>

lemma SortUpdates_mset: "mset (SortUpdates updates) = mset updates"
  by (simp add: SortUpdates_def)

lemma SortUpdates_sorted: "sorted (map (\<lambda>u. sint (UpdateID u)) (SortUpdates updates))"
  by (simp add: SortUpdates_def)

lemma SortUpdates_set: "set (SortUpdates updates) = set updates"
  by (simp add: SortUpdates_def)

lemma SortUpdates_Nil: "SortUpdates updates = [] \<longleftrightarrow> updates = []"
  using SortUpdates_set [of updates] by (metis set_empty)

lemma SortUpdates_last_max:
  assumes "u \<in> set updates"
  shows "sint (UpdateID u) \<le> sint (UpdateID (last (SortUpdates updates)))"
proof -
  let ?s = "SortUpdates updates"
  from assms have ne: "?s \<noteq> []" by (auto simp: SortUpdates_Nil)
  from assms have "u \<in> set ?s" by (simp add: SortUpdates_set)
  then obtain i where i: "i < length ?s" "?s ! i = u" by (auto simp: in_set_conv_nth)
  have "map (\<lambda>u. sint (UpdateID u)) ?s ! i \<le> map (\<lambda>u. sint (UpdateID u)) ?s ! (length ?s - 1)"
    using i ne by (intro sorted_nth_mono [OF SortUpdates_sorted]) auto
  with i ne show ?thesis by (simp add: last_conv_nth)
qed

lemma sint_succ:
  fixes x :: "64 word"
  assumes "sint x < 2 ^ 63 - 1"
  shows "sint (x + 1) = sint x + 1"
proof -
  have "- (2 ^ 63) \<le> sint x" using sint_ge [of x] by simp
  with assms show ?thesis
    by (simp add: sint_word_ariths signed_take_bit_int_eq_self)
qed

lemma poll_cycle_fetched:
  assumes "GetUpdates api l (poller_params p) w = Some ((updates, err), w')"
  shows "poll_cycle api l (p, w) =
    (case err of
       Some e \<Rightarrow> Some (p\<lparr>receiver_calls := receiver_calls p @ [(None, Some e)]\<rparr>, w')
     | None \<Rightarrow>
         if updates = [] then Some (p, w')
         else Some (p\<lparr>receiver_calls :=
                  receiver_calls p @ map (\<lambda>u. (Some u, None)) (SortUpdates updates),
                poller_params := (poller_params p)\<lparr>GetUpdates_Offset :=
                  UpdateID (last (SortUpdates updates)) + 1\<rparr>\<rparr>, w'))"
  using assms by (auto simp add: poll_cycle_def Let_def split: option.splits)

text \<open>
  C6. When a fetch returns a non-empty batch without error, the cycle calls the receiver
  once per update, in the order of \<open>SortUpdates\<close>, which holds every update of the batch
  exactly once and ascends in the identifier, and then sets the cursor to the identifier of
  the last update delivered plus one. When the batch is empty the cycle calls nothing and
  leaves the closure's state, the cursor with it, as it was.
\<close>

theorem poll_cycle_delivery:
  assumes "GetUpdates api l (poller_params p) w = Some ((updates, None), w')"
  shows "(updates \<noteq> [] \<longrightarrow>
      poll_cycle api l (p, w) =
        Some (p\<lparr>receiver_calls := receiver_calls p @ map (\<lambda>u. (Some u, None)) (SortUpdates updates),
               poller_params := (poller_params p)\<lparr>GetUpdates_Offset :=
                 UpdateID (last (SortUpdates updates)) + 1\<rparr>\<rparr>, w')
      \<and> mset (SortUpdates updates) = mset updates
      \<and> sorted (map (\<lambda>u. sint (UpdateID u)) (SortUpdates updates)))
    \<and> (updates = [] \<longrightarrow> poll_cycle api l (p, w) = Some (p, w'))"
  using assms by (simp add: poll_cycle_def SortUpdates_mset SortUpdates_sorted Let_def)

text \<open>
  C7. When the fetch of a cycle returns an error, the cycle calls the receiver once, with a
  nil update and that error, the cursor after the cycle is the cursor before it, and the
  session goes on: its remaining cycles run from the state this cycle left.
\<close>

theorem poll_cycle_fetch_error:
  assumes "GetUpdates api l (poller_params p) w = Some ((updates, Some e), w')"
  shows "poll_cycle api l (p, w) = Some (p\<lparr>receiver_calls := receiver_calls p @ [(None, Some e)]\<rparr>, w')
    \<and> GetUpdates_Offset (poller_params (p\<lparr>receiver_calls := receiver_calls p @ [(None, Some e)]\<rparr>))
        = GetUpdates_Offset (poller_params p)
    \<and> StartReceivingUpdatesWithParams api l (Suc n) (p, w)
        = StartReceivingUpdatesWithParams api l n
            (p\<lparr>receiver_calls := receiver_calls p @ [(None, Some e)]\<rparr>, w')"
  using assms by (simp add: poll_cycle_def)

lemma fetches_from_cursor_step:
  assumes "GetUpdates api l (poller_params p) w = Some ((updates, err), w1)"
    and "poll_cycle api l (p, w) = Some pw'"
    and "err = None \<Longrightarrow>
      \<forall>u\<in>set updates. cursor p \<le> sint (UpdateID u) \<and> sint (UpdateID u) < 2 ^ 63 - 1"
    and "fetches_from_cursor api l n pw'"
  shows "fetches_from_cursor api l (Suc n) (p, w)"
  using assms by simp

lemma poll_cycle_cursor:
  assumes run: "poll_cycle api l (p, w) = Some (p', w')"
    and ok: "fetches_from_cursor api l (Suc n) (p, w)"
  shows "cursor p \<le> cursor p'"
proof -
  from run obtain updates err w1 where
    fetch: "GetUpdates api l (poller_params p) w = Some ((updates, err), w1)"
    by (auto simp: poll_cycle_def split: option.splits)
  show ?thesis
  proof (cases "err = None \<and> updates \<noteq> []")
    case False
    with run fetch show ?thesis
      by (auto simp: poll_cycle_def cursor_def split: option.splits)
  next
    case True
    let ?last = "last (SortUpdates updates)"
    from True have "?last \<in> set updates"
      using last_in_set [of "SortUpdates updates"] by (simp add: SortUpdates_Nil SortUpdates_set)
    with ok fetch True have b: "cursor p \<le> sint (UpdateID ?last)" "sint (UpdateID ?last) < 2 ^ 63 - 1"
      by auto
    from run fetch True have "cursor p' = sint (UpdateID ?last + 1)"
      by (auto simp: poll_cycle_def cursor_def Let_def)
    with b show ?thesis by (simp add: sint_succ)
  qed
qed

text \<open>
  C8, amended. Over any number of cycles of a session, the cursor at the end is at least
  the cursor at the start, provided every batch fetched without error holds only identifiers
  that are at least the cursor at that fetch and below the largest \<open>int\<close>.
\<close>

theorem cursor_never_decreases:
  assumes "StartReceivingUpdatesWithParams api l n (p, w) = Some (p', w')"
    and "fetches_from_cursor api l n (p, w)"
  shows "cursor p \<le> cursor p'"
  using assms
proof (induction n arbitrary: p w)
  case 0
  then show ?case by simp
next
  case (Suc n)
  from Suc.prems(1) obtain p1 w1 where
    step: "poll_cycle api l (p, w) = Some (p1, w1)"
    and rest: "StartReceivingUpdatesWithParams api l n (p1, w1) = Some (p', w')"
    by (auto split: option.splits)
  from step obtain r where "GetUpdates api l (poller_params p) w = Some r"
    by (auto simp: poll_cycle_def split: option.splits)
  with step Suc.prems(2) have ok: "fetches_from_cursor api l n (p1, w1)"
    by (auto split: prod.splits)
  have "cursor p \<le> cursor p1" using step Suc.prems(2) by (rule poll_cycle_cursor)
  also have "cursor p1 \<le> cursor p'" using rest ok by (rule Suc.IH)
  finally show ?case .
qed

lemma encode_nil:
  "encode l requestDataJSON None st = (Inr (''application/json'', JSONBody requestDataJSON), st)"
  by (simp add: encode_def filterInputFilesNeedingUpload_def len_def)

lemma GetUpdates_success:
  assumes "Marshal l ps (files w) = (Inr js, st)"
    and "HttpDoRequest api ''POST'' (EndpointURL api @ Token api @ ''/'' @ ''getUpdates'')
        [(''Content-Type'', ''application/json'')] (JSONBody js) (transport w) = (Inr respBody, ts)"
    and "Unmarshal l respBody [] = (Inr apiResp, updates)"
    and "OK apiResp"
  shows "GetUpdates api l ps w = Some ((updates, None),
    w\<lparr>files := st, transport := ts,
      trace := trace w @ [HttpCall ''POST'' (EndpointURL api @ Token api @ ''/'' @ ''getUpdates'')
        [(''Content-Type'', ''application/json'')] (JSONBody js)]\<rparr>)"
proof -
  let ?w = "w\<lparr>files := st\<rparr>"
  have "makeAPICall_loop api l (EndpointURL api @ Token api @ ''/'' @ ''getUpdates'')
      ''application/json'' (JSONBody js) [] ?w
    = Some (((0, None), updates), ?w\<lparr>transport := ts,
        trace := trace ?w @ [HttpCall ''POST'' (EndpointURL api @ Token api @ ''/'' @ ''getUpdates'')
        [(''Content-Type'', ''application/json'')] (JSONBody js)]\<rparr>)"
    using assms(2-4) by (intro makeAPICall_loop_success) simp_all
  then show ?thesis
    by (simp add: GetUpdates_def makeAPICall_unfold [OF assms(1) encode_nil])
qed

lemma GetUpdates_transport_error:
  assumes "Marshal l ps (files w) = (Inr js, st)"
    and "HttpDoRequest api ''POST'' (EndpointURL api @ Token api @ ''/'' @ ''getUpdates'')
        [(''Content-Type'', ''application/json'')] (JSONBody js) (transport w) = (Inl err, ts)"
  shows "GetUpdates api l ps w =
    Some (([], Some (Errorf ''GetUpdates: %w'' (Errorf ''makeAPICall: %w'' err))),
      w\<lparr>files := st, transport := ts,
        trace := trace w @ [HttpCall ''POST'' (EndpointURL api @ Token api @ ''/'' @ ''getUpdates'')
          [(''Content-Type'', ''application/json'')] (JSONBody js)]\<rparr>)"
  using assms(2)
  by (simp add: GetUpdates_def makeAPICall_unfold [OF assms(1) encode_nil])
    (subst makeAPICall_loop.simps, simp)

lemma GetUpdates_decode_error:
  assumes "Marshal l ps (files w) = (Inr js, st)"
    and "HttpDoRequest api ''POST'' (EndpointURL api @ Token api @ ''/'' @ ''getUpdates'')
        [(''Content-Type'', ''application/json'')] (JSONBody js) (transport w) = (Inr respBody, ts)"
    and "Unmarshal l respBody [] = (Inl err, updates)"
  shows "GetUpdates api l ps w =
    Some (([], Some (Errorf ''GetUpdates: %w'' (Errorf ''makeAPICall: %w'' err))),
      w\<lparr>files := st, transport := ts,
        trace := trace w @ [HttpCall ''POST'' (EndpointURL api @ Token api @ ''/'' @ ''getUpdates'')
          [(''Content-Type'', ''application/json'')] (JSONBody js)]\<rparr>)"
  using assms(2,3)
  by (simp add: GetUpdates_def makeAPICall_unfold [OF assms(1) encode_nil])
    (subst makeAPICall_loop.simps, simp)

lemma scripted_fetch:
  assumes "map_of update_table respBody = Some (ok_response, Some updates)"
  shows "GetUpdates demo_api update_lib ps
      \<lparr>files = no_files, transport = Inr respBody # script, trace = tr\<rparr>
    = Some ((updates, None),
        \<lparr>files = no_files, transport = script, trace = tr @ [getUpdates_call]\<rparr>)"
proof -
  let ?w = "\<lparr>files = no_files, transport = Inr respBody # script, trace = tr\<rparr>"
  have m: "Marshal update_lib ps (files ?w) = (Inr ''{}'', no_files)"
    by (simp add: update_lib_def demo_lib_def plain_marshal_def)
  have h: "HttpDoRequest demo_api ''POST'' (EndpointURL demo_api @ Token demo_api @ ''/'' @ ''getUpdates'')
        [(''Content-Type'', ''application/json'')] (JSONBody ''{}'') (transport ?w)
      = (Inr respBody, script)"
    by (simp add: demo_api_def scripted_def)
  have d: "Unmarshal update_lib respBody [] = (Inr ok_response, updates)"
    using assms by (simp add: update_lib_def demo_lib_def table_Unmarshal_def)
  have ok: "OK ok_response" by (simp add: ok_response_def)
  show ?thesis
    using GetUpdates_success [OF m h d ok]
    by (simp add: demo_api_def getUpdates_call_def)
qed

lemma UpdateID_upd: "UpdateID (upd i) = i"
  by (simp add: upd_def)

lemma sort_batch: "SortUpdates [upd 5, upd 3, upd 4] = [upd 3, upd 4, upd 5]"
  by (simp add: SortUpdates_def upd_def)

theorem poll_cycle_delivery_witness:
  "poll_cycle demo_api update_lib (poller_at 0, demo_world [Inr ''batch''])
     = Some ((poller_at 6)\<lparr>receiver_calls :=
          [(Some (upd 3), None), (Some (upd 4), None), (Some (upd 5), None)]\<rparr>,
        \<lparr>files = no_files, transport = [], trace = [getUpdates_call]\<rparr>)
   \<and> poll_cycle demo_api update_lib (poller_at 6, demo_world [Inr ''empty''])
     = Some (poller_at 6, \<lparr>files = no_files, transport = [], trace = [getUpdates_call]\<rparr>)"
proof -
  have f1: "GetUpdates demo_api update_lib (poller_params (poller_at 0)) (demo_world [Inr ''batch''])
      = Some (([upd 5, upd 3, upd 4], None),
          \<lparr>files = no_files, transport = [], trace = [getUpdates_call]\<rparr>)"
    using scripted_fetch [where tr = "[]"] by (simp add: update_table_def demo_world_def)
  have f2: "GetUpdates demo_api update_lib (poller_params (poller_at 6)) (demo_world [Inr ''empty''])
      = Some (([], None), \<lparr>files = no_files, transport = [], trace = [getUpdates_call]\<rparr>)"
    using scripted_fetch [where tr = "[]"] by (simp add: update_table_def demo_world_def)
  from poll_cycle_delivery [OF f1] poll_cycle_delivery [OF f2]
  show ?thesis
    by (simp add: sort_batch poller_at_def UpdateID_upd)
qed

lemma scripted_fetch_error:
  "GetUpdates demo_api update_lib ps
      \<lparr>files = no_files, transport = Inl err # script, trace = tr\<rparr>
    = Some (([], Some (Errorf ''GetUpdates: %w'' (Errorf ''makeAPICall: %w'' err))),
        \<lparr>files = no_files, transport = script, trace = tr @ [getUpdates_call]\<rparr>)"
proof -
  let ?w = "\<lparr>files = no_files, transport = Inl err # script, trace = tr\<rparr>"
  have m: "Marshal update_lib ps (files ?w) = (Inr ''{}'', no_files)"
    by (simp add: update_lib_def demo_lib_def plain_marshal_def)
  have h: "HttpDoRequest demo_api ''POST'' (EndpointURL demo_api @ Token demo_api @ ''/'' @ ''getUpdates'')
        [(''Content-Type'', ''application/json'')] (JSONBody ''{}'') (transport ?w)
      = (Inl err, script)"
    by (simp add: demo_api_def scripted_def)
  show ?thesis
    using GetUpdates_transport_error [OF m h]
    by (simp add: demo_api_def getUpdates_call_def)
qed

theorem poll_cycle_fetch_error_witness:
  "poll_cycle demo_api update_lib
       (poller_at 6, demo_world [Inl (ErrorNew ''dial tcp: timeout''), Inr ''next''])
     = Some ((poller_at 6)\<lparr>receiver_calls := [(None, Some fetch_error)]\<rparr>,
        \<lparr>files = no_files, transport = [Inr ''next''], trace = [getUpdates_call]\<rparr>)
   \<and> StartReceivingUpdatesWithParams demo_api update_lib 2
       (poller_at 6, demo_world [Inl (ErrorNew ''dial tcp: timeout''), Inr ''next''])
     = Some ((poller_at 8)\<lparr>receiver_calls :=
          [(None, Some fetch_error), (Some (upd 6), None), (Some (upd 7), None)]\<rparr>,
        \<lparr>files = no_files, transport = [], trace = [getUpdates_call, getUpdates_call]\<rparr>)"
proof -
  let ?w = "demo_world [Inl (ErrorNew ''dial tcp: timeout''), Inr ''next'']"
  let ?p1 = "(poller_at 6)\<lparr>receiver_calls := receiver_calls (poller_at 6) @ [(None, Some fetch_error)]\<rparr>"
  let ?w1 = "\<lparr>files = no_files, transport = [Inr ''next''], trace = [getUpdates_call]\<rparr>"
  have f1: "GetUpdates demo_api update_lib (poller_params (poller_at 6)) ?w
      = Some (([], Some fetch_error), ?w1)"
    using scripted_fetch_error [where tr = "[]"] by (simp add: demo_world_def fetch_error_def)
  note t = poll_cycle_fetch_error [OF f1, of "Suc 0"]
  have f2: "GetUpdates demo_api update_lib (poller_params ?p1) ?w1
      = Some (([upd 7, upd 6], None),
          \<lparr>files = no_files, transport = [], trace = [getUpdates_call, getUpdates_call]\<rparr>)"
    using scripted_fetch [where tr = "[getUpdates_call, getUpdates_call]"] scripted_fetch [where tr = "[getUpdates_call]"]
    by (simp add: update_table_def)
  have s: "SortUpdates [upd 7, upd 6] = [upd 6, upd 7]"
    by (simp add: SortUpdates_def upd_def)
  have c2: "poll_cycle demo_api update_lib (?p1, ?w1)
      = Some ((poller_at 8)\<lparr>receiver_calls :=
          [(None, Some fetch_error), (Some (upd 6), None), (Some (upd 7), None)]\<rparr>,
        \<lparr>files = no_files, transport = [], trace = [getUpdates_call, getUpdates_call]\<rparr>)"
    using poll_cycle_fetched [OF f2] by (simp add: s poller_at_def UpdateID_upd)
  from t c2 show ?thesis
    by (simp add: numeral_2_eq_2 poller_at_def)
qed

text \<open>
  C8 as stated fails: the cycle sets the cursor to the last identifier plus one whatever the
  cursor was. From the cursor 10, a fetch that returns the single update 3 leaves the
  cursor 4.
\<close>

theorem cursor_decreases_counterexample:
  "poll_cycle demo_api update_lib (poller_at 10, demo_world [Inr ''old''])
     = Some ((poller_at 4)\<lparr>receiver_calls := [(Some (upd 3), None)]\<rparr>,
        \<lparr>files = no_files, transport = [], trace = [getUpdates_call]\<rparr>)
   \<and> cursor ((poller_at 4)\<lparr>receiver_calls := [(Some (upd 3), None)]\<rparr>) < cursor (poller_at 10)"
proof -
  have f: "GetUpdates demo_api update_lib (poller_params (poller_at 10)) (demo_world [Inr ''old''])
      = Some (([upd 3], None),
          \<lparr>files = no_files, transport = [], trace = [getUpdates_call]\<rparr>)"
    using scripted_fetch [where tr = "[]"] by (simp add: update_table_def demo_world_def)
  have s: "SortUpdates [upd 3] = [upd 3]"
    by (simp add: SortUpdates_def)
  show ?thesis
    using poll_cycle_fetched [OF f] by (simp add: s poller_at_def UpdateID_upd cursor_def)
qed

theorem cursor_never_decreases_witness:
  "StartReceivingUpdatesWithParams demo_api update_lib 3
       (poller_at 0, demo_world [Inr ''batch'', Inl (ErrorNew ''dial tcp: timeout''), Inr ''next''])
     = Some ((poller_at 8)\<lparr>receiver_calls :=
          [(Some (upd 3), None), (Some (upd 4), None), (Some (upd 5), None),
           (None, Some fetch_error), (Some (upd 6), None), (Some (upd 7), None)]\<rparr>,
        \<lparr>files = no_files, transport = [],
           trace = [getUpdates_call, getUpdates_call, getUpdates_call]\<rparr>)
   \<and> cursor (poller_at 0) \<le> cursor ((poller_at 8)\<lparr>receiver_calls :=
          [(Some (upd 3), None), (Some (upd 4), None), (Some (upd 5), None),
           (None, Some fetch_error), (Some (upd 6), None), (Some (upd 7), None)]\<rparr>)"
proof -
  let ?w0 = "demo_world [Inr ''batch'', Inl (ErrorNew ''dial tcp: timeout''), Inr ''next'']"
  let ?w1 = "\<lparr>files = no_files, transport = [Inl (ErrorNew ''dial tcp: timeout''), Inr ''next''],
      trace = [getUpdates_call]\<rparr>"
  let ?w2 = "\<lparr>files = no_files, transport = [Inr ''next''],
      trace = [getUpdates_call, getUpdates_call]\<rparr>"
  let ?w3 = "\<lparr>files = no_files, transport = [] :: (error + bytes) list,
      trace = [getUpdates_call, getUpdates_call, getUpdates_call]\<rparr>"
  let ?p1 = "(poller_at 6)\<lparr>receiver_calls :=
      [(Some (upd 3), None), (Some (upd 4), None), (Some (upd 5), None)]\<rparr>"
  let ?p2 = "(poller_at 6)\<lparr>receiver_calls :=
      [(Some (upd 3), None), (Some (upd 4), None), (Some (upd 5), None), (None, Some fetch_error)]\<rparr>"
  let ?p3 = "(poller_at 8)\<lparr>receiver_calls :=
          [(Some (upd 3), None), (Some (upd 4), None), (Some (upd 5), None),
           (None, Some fetch_error), (Some (upd 6), None), (Some (upd 7), None)]\<rparr>"
  have f1: "GetUpdates demo_api update_lib (poller_params (poller_at 0)) ?w0
      = Some (([upd 5, upd 3, upd 4], None), ?w1)"
    using scripted_fetch [where tr = "[]"] by (simp add: update_table_def demo_world_def)
  have f2: "GetUpdates demo_api update_lib (poller_params ?p1) ?w1
      = Some (([], Some fetch_error), ?w2)"
    using scripted_fetch_error [where tr = "[getUpdates_call]"] by (simp add: fetch_error_def)
  have f3: "GetUpdates demo_api update_lib (poller_params ?p2) ?w2
      = Some (([upd 7, upd 6], None), ?w3)"
    using scripted_fetch [where tr = "[getUpdates_call, getUpdates_call]"] scripted_fetch [where tr = "[getUpdates_call]"]
    by (simp add: update_table_def)
  have s3: "SortUpdates [upd 7, upd 6] = [upd 6, upd 7]"
    by (simp add: SortUpdates_def upd_def)
  have c1: "poll_cycle demo_api update_lib (poller_at 0, ?w0) = Some (?p1, ?w1)"
    using poll_cycle_fetched [OF f1] by (simp add: sort_batch poller_at_def UpdateID_upd)
  have c2: "poll_cycle demo_api update_lib (?p1, ?w1) = Some (?p2, ?w2)"
    using poll_cycle_fetched [OF f2] by (simp add: poller_at_def)
  have c3: "poll_cycle demo_api update_lib (?p2, ?w2) = Some (?p3, ?w3)"
    using poll_cycle_fetched [OF f3] by (simp add: s3 poller_at_def UpdateID_upd)
  have run: "StartReceivingUpdatesWithParams demo_api update_lib 3 (poller_at 0, ?w0)
      = Some (?p3, ?w3)"
    by (simp add: numeral_3_eq_3 c1 c2 c3)
  have b1: "\<forall>u\<in>set [upd 5, upd 3, upd 4].
      cursor (poller_at 0) \<le> sint (UpdateID u) \<and> sint (UpdateID u) < 2 ^ 63 - 1"
    by (simp add: cursor_def poller_at_def upd_def)
  have b3: "\<forall>u\<in>set [upd 7, upd 6].
      cursor ?p2 \<le> sint (UpdateID u) \<and> sint (UpdateID u) < 2 ^ 63 - 1"
    by (simp add: cursor_def poller_at_def upd_def)
  have ok3: "fetches_from_cursor demo_api update_lib (Suc 0) (?p2, ?w2)"
    using f3 c3 b3 by (rule fetches_from_cursor_step) simp
  have ok2: "fetches_from_cursor demo_api update_lib (Suc (Suc 0)) (?p1, ?w1)"
    using f2 c2 _ ok3 by (rule fetches_from_cursor_step) simp
  have "fetches_from_cursor demo_api update_lib (Suc (Suc (Suc 0))) (poller_at 0, ?w0)"
    using f1 c1 b1 ok2 by (rule fetches_from_cursor_step)
  then have ok: "fetches_from_cursor demo_api update_lib 3 (poller_at 0, ?w0)"
    by (simp only: numeral_3_eq_3)
  from cursor_never_decreases [OF run ok] run show ?thesis
    by simp
qed

section \<open>File references in a call\<close>





lemma checkFieldname_Name: "Name (heap (checkFieldname fr st) a) = Name (heap st a)"
  by (simp add: checkFieldname_def split: prod.splits)

















lemma multipartFormFile_Name:
  "Name (heap (snd (multipartFormFile f st)) a) = Name (heap st a)"
  by (cases f) (simp_all add: Let_def checkFieldname_Name)









lemma touch_Name: "Name (heap (touch fs st) a) = Name (heap st a)"
  by (induction fs st rule: touch.induct) (simp_all add: multipartFormFile_Name)


















end
